theory Spec2Isabelle
  imports Main "HOL-Library.Word"
begin

section \<open>Values of the host language\<close>

text \<open>
  The class \<open>DpsConfig\<close> of \<open>src/index.ts\<close> is embedded with the values it handles:
  strings are sequences of 16-bit code units, byte arrays are sequences of 8-bit words,
  \<open>T | undefined\<close> is \<open>T option\<close> with \<open>None\<close> for \<open>undefined\<close>, and \<open>process.env\<close> is a
  partial map from variable names to string values.
\<close>

type_synonym code_unit = "16 word"
type_synonym jsstring = "code_unit list"
type_synonym byte = "8 word"
type_synonym environment = "jsstring \<rightharpoonup> jsstring"

text \<open>A string literal of the source, written with ASCII characters.\<close>

definition js :: "string \<Rightarrow> jsstring" where
  "js s = map of_char s"

text \<open>
  A \<open>number\<close> is an IEEE double. All five numeric settings are integer settings, so the
  model keeps the integer-valued doubles (\<open>Num n\<close>, with \<open>Num 0\<close> for \<open>+0\<close>) and the special
  values that \<open>parseInt\<close> and callers can produce: \<open>-0\<close>, \<open>NaN\<close> and the two infinities.
  Doubles with a fractional part are outside the model. Not every integer is a double:
  \<open>parseInt\<close> rounds to one, and what is proved of \<open>Num n\<close> holds for every \<open>n\<close>.
\<close>

datatype number = Num int | NegZero | NaN | PosInfinity | NegInfinity

text \<open>The only runtime error the operations used by the class could raise: reading a
  property of \<open>undefined\<close>.\<close>

datatype error = TypeError

subsection \<open>Rounding an integer to a number\<close>

fun bit_length :: "nat \<Rightarrow> nat" where
  "bit_length n = (if n = 0 then 0 else Suc (bit_length (n div 2)))"

text \<open>
  The number value of a nonzero mathematical integer: exact below \<open>2^53\<close>, otherwise
  rounded to 53 significant bits, ties to even, and infinite from \<open>2^1024\<close> on.
\<close>

definition round_magnitude :: "nat \<Rightarrow> nat" where
  "round_magnitude a =
     (if a < 2 ^ 53 then a
      else let e = bit_length a - 53;
               q = a div 2 ^ e;
               r = a mod 2 ^ e;
               q' = (if 2 * r > 2 ^ e \<or> (2 * r = 2 ^ e \<and> odd q) then q + 1 else q)
           in q' * 2 ^ e)"

definition number_of_int :: "int \<Rightarrow> number" where
  "number_of_int i =
     (let v = round_magnitude (nat \<bar>i\<bar>)
      in if v \<ge> 2 ^ 1024 then (if i < 0 then NegInfinity else PosInfinity)
         else Num (if i < 0 then - int v else int v))"

subsection \<open>\<open>parseInt\<close>\<close>

text \<open>White space and line terminators, as stripped by \<open>parseInt\<close> from the start of
  its input.\<close>

definition is_white_space :: "code_unit \<Rightarrow> bool" where
  "is_white_space c =
     (let u = unat c
      in u = 0x09 \<or> u = 0x0A \<or> u = 0x0B \<or> u = 0x0C \<or> u = 0x0D \<or> u = 0x20 \<or> u = 0xA0
         \<or> u = 0x1680 \<or> (0x2000 \<le> u \<and> u \<le> 0x200A) \<or> u = 0x2028 \<or> u = 0x2029
         \<or> u = 0x202F \<or> u = 0x205F \<or> u = 0x3000 \<or> u = 0xFEFF)"

text \<open>The value of a code unit as a digit: \<open>0-9\<close>, then \<open>a-z\<close> or \<open>A-Z\<close> for ten and up.\<close>

definition digit_value :: "code_unit \<Rightarrow> nat option" where
  "digit_value c =
     (let u = unat c
      in if 0x30 \<le> u \<and> u \<le> 0x39 then Some (u - 0x30)
         else if 0x61 \<le> u \<and> u \<le> 0x7A then Some (u - 0x61 + 10)
         else if 0x41 \<le> u \<and> u \<le> 0x5A then Some (u - 0x41 + 10)
         else None)"

definition is_radix_digit :: "nat \<Rightarrow> code_unit \<Rightarrow> bool" where
  "is_radix_digit R c = (case digit_value c of None \<Rightarrow> False | Some d \<Rightarrow> d < R)"

text \<open>The integer that a sequence of digits represents in radix \<open>R\<close>.\<close>

definition radix_value :: "nat \<Rightarrow> jsstring \<Rightarrow> nat" where
  "radix_value R Z = foldl (\<lambda>a c. R * a + (case digit_value c of None \<Rightarrow> 0 | Some d \<Rightarrow> d)) 0 Z"

text \<open>
  \<open>parseInt(string, radix)\<close> for a string and a radix between 2 and 36: leading white space
  is dropped, then an optional sign, then the longest run of digits is read; no digit
  gives \<open>NaN\<close>, and whatever follows the digits is ignored. Only radix 16 drops a
  \<open>0x\<close> prefix. Where the standard lets an implementation approximate decimal input
  beyond 20 digits, the model takes the exact value.
\<close>

definition strip_sign :: "jsstring \<Rightarrow> jsstring" where
  "strip_sign S = (if S \<noteq> [] \<and> (hd S = 0x2B \<or> hd S = 0x2D) then tl S else S)"

definition digits_read :: "nat \<Rightarrow> jsstring \<Rightarrow> jsstring" where
  "digits_read radix inputString =
     (let S1 = strip_sign (dropWhile is_white_space inputString);
          S2 = (if radix = 16 \<and> (take 2 S1 = js ''0x'' \<or> take 2 S1 = js ''0X'')
                then drop 2 S1 else S1)
      in takeWhile (is_radix_digit radix) S2)"

definition parseInt :: "jsstring \<Rightarrow> nat \<Rightarrow> number" where
  "parseInt inputString radix =
     (let S = dropWhile is_white_space inputString;
          negative = (S \<noteq> [] \<and> hd S = 0x2D)
      in if radix < 2 \<or> radix > 36 then NaN
         else let Z = digits_read radix inputString
              in if Z = [] then NaN
                 else let mathInt = radix_value radix Z
                      in if mathInt = 0 then (if negative then NegZero else Num 0)
                         else number_of_int (if negative then - int mathInt else int mathInt))"


definition isNaN :: "number \<Rightarrow> bool" where
  "isNaN x = (x = NaN)"

section \<open>The configuration store\<close>

record DpsConfig =
  domain :: "jsstring option"
  apiPath :: "jsstring option"
  developmentMode :: "bool option"
  authApiSubdomain :: "jsstring option"
  authApiPort :: "number option"
  authApiProtocol :: "jsstring option"
  authApiInsecureCookie :: "bool option"
  authApiSqliteMainFilePath :: "jsstring option"
  authApiSqliteMainPoolSize :: "number option"
  authApiSqliteCollectionFilePath :: "jsstring option"
  authApiSqliteCollectionPoolSize :: "number option"
  authApiSqliteSessionFilePath :: "jsstring option"
  authApiSqliteSessionPoolSize :: "number option"
  authApiSessionSecret :: "jsstring option"
  authApiSessionTtlSeconds :: "number option"

subsection \<open>Helper methods\<close>

text \<open>\<open>value.length\<close>: a \<open>TypeError\<close> when \<open>value\<close> is \<open>undefined\<close>.\<close>

definition length_of :: "jsstring option \<Rightarrow> error + nat" where
  "length_of v = (case v of None \<Rightarrow> Inl TypeError | Some s \<Rightarrow> Inr (length s))"

text \<open>An optional string where a string is expected, as \<open>parseInt\<close> converts its argument.\<close>

definition ToString :: "jsstring option \<Rightarrow> jsstring" where
  "ToString v = (case v of None \<Rightarrow> js ''undefined'' | Some s \<Rightarrow> s)"

text \<open>An optional string in a condition: \<open>undefined\<close> and the empty string are falsy.\<close>

definition truthy_string :: "jsstring option \<Rightarrow> bool" where
  "truthy_string v = (case v of None \<Rightarrow> False | Some s \<Rightarrow> s \<noteq> [])"

definition loadEnvString :: "environment \<Rightarrow> jsstring \<Rightarrow> jsstring \<Rightarrow> error + jsstring option" where
  "loadEnvString env prefix key =
     (let v = env (prefix @ key)
      in if truthy_string v
         then (case length_of v of
                 Inl e \<Rightarrow> Inl e
               | Inr n \<Rightarrow> Inr (if n > 0 then v else None))
         else Inr None)"

definition loadEnvBool :: "environment \<Rightarrow> jsstring \<Rightarrow> jsstring \<Rightarrow> error + bool option" where
  "loadEnvBool env prefix key =
     (let v = env (prefix @ key)
      in Inr (if v = Some (js ''Y'') then Some True
              else if v = None then None else Some False))"

definition loadEnvNumber :: "environment \<Rightarrow> jsstring \<Rightarrow> jsstring \<Rightarrow> error + number option" where
  "loadEnvNumber env prefix key =
     (let v = env (prefix @ key)
      in if v = None then Inr None
         else (case length_of v of
                 Inl e \<Rightarrow> Inl e
               | Inr n \<Rightarrow>
                   if n = 0 then Inr None
                   else let parsed = parseInt (ToString v) 10
                        in Inr (if isNaN parsed then None else Some parsed)))"

subsection \<open>Construction\<close>

text \<open>Sequencing of statements that may raise: the first error ends the evaluation.\<close>

definition and_then :: "error + 'a \<Rightarrow> ('a \<Rightarrow> error + 'b) \<Rightarrow> error + 'b" where
  "and_then r f = (case r of Inl e \<Rightarrow> Inl e | Inr x \<Rightarrow> f x)"

text \<open>
  The parameter \<open>envPrefix: string = ""\<close>: the argument is \<open>None\<close> when the caller
  passes no prefix, which selects the default value.
\<close>

definition default_prefix :: "jsstring option \<Rightarrow> jsstring" where
  "default_prefix arg = (case arg of None \<Rightarrow> js '''' | Some p \<Rightarrow> p)"

text \<open>The constructor; the fifteen assignments run in the order of the source.\<close>

definition new_DpsConfig :: "environment \<Rightarrow> jsstring option \<Rightarrow> error + DpsConfig" where
  "new_DpsConfig env arg =
     (let envPrefix = default_prefix arg
      in and_then (loadEnvString env envPrefix (js ''DPS_DOMAIN'')) (\<lambda>v1.
         and_then (loadEnvString env envPrefix (js ''DPS_API_PATH'')) (\<lambda>v2.
         and_then (loadEnvBool env envPrefix (js ''DPS_DEVELOPMENT_MODE'')) (\<lambda>v3.
         and_then (loadEnvString env envPrefix (js ''DPS_AUTH_API_SUBDOMAIN'')) (\<lambda>v4.
         and_then (loadEnvNumber env envPrefix (js ''DPS_AUTH_API_PORT'')) (\<lambda>v5.
         and_then (loadEnvString env envPrefix (js ''DPS_AUTH_API_PROTOCOL'')) (\<lambda>v6.
         and_then (loadEnvBool env envPrefix (js ''DPS_AUTH_API_INSECURE_COOKIE'')) (\<lambda>v7.
         and_then (loadEnvString env envPrefix (js ''DPS_AUTH_API_SQLITE_MAIN_FILE_PATH'')) (\<lambda>v8.
         and_then (loadEnvNumber env envPrefix (js ''DPS_AUTH_API_SQLITE_MAIN_POOL_SIZE'')) (\<lambda>v9.
         and_then (loadEnvString env envPrefix (js ''DPS_AUTH_API_SQLITE_COLLECTION_FILE_PATH'')) (\<lambda>v10.
         and_then (loadEnvNumber env envPrefix (js ''DPS_AUTH_API_SQLITE_COLLECTION_POOL_SIZE'')) (\<lambda>v11.
         and_then (loadEnvString env envPrefix (js ''DPS_AUTH_API_SQLITE_SESSION_FILE_PATH'')) (\<lambda>v12.
         and_then (loadEnvNumber env envPrefix (js ''DPS_AUTH_API_SQLITE_SESSION_POOL_SIZE'')) (\<lambda>v13.
         and_then (loadEnvString env envPrefix (js ''DPS_AUTH_API_SESSION_SECRET'')) (\<lambda>v14.
         and_then (loadEnvNumber env envPrefix (js ''DPS_AUTH_API_SESSION_TTL_SECONDS'')) (\<lambda>v15.
         Inr \<lparr> domain = v1, apiPath = v2, developmentMode = v3,
               authApiSubdomain = v4, authApiPort = v5, authApiProtocol = v6,
               authApiInsecureCookie = v7,
               authApiSqliteMainFilePath = v8, authApiSqliteMainPoolSize = v9,
               authApiSqliteCollectionFilePath = v10, authApiSqliteCollectionPoolSize = v11,
               authApiSqliteSessionFilePath = v12, authApiSqliteSessionPoolSize = v13,
               authApiSessionSecret = v14,
               authApiSessionTtlSeconds = v15 \<rparr>))))))))))))))))"

subsection \<open>Getters and setters\<close>

text \<open>\<open>a ?? b\<close>: \<open>b\<close> when \<open>a\<close> is \<open>undefined\<close>, otherwise \<open>a\<close>, whatever its value.\<close>

definition nullish :: "'a option \<Rightarrow> 'a \<Rightarrow> 'a" where
  "nullish a b = (case a of None \<Rightarrow> b | Some x \<Rightarrow> x)"

definition getDomain :: "DpsConfig \<Rightarrow> jsstring" where
  "getDomain this = nullish (domain this) (js ''dps.localhost'')"

definition setDomain :: "jsstring \<Rightarrow> DpsConfig \<Rightarrow> DpsConfig" where
  "setDomain v this = this\<lparr>domain := Some v\<rparr>"

definition getApiPath :: "DpsConfig \<Rightarrow> jsstring" where
  "getApiPath this = nullish (apiPath this) (js ''api'')"

definition setApiPath :: "jsstring \<Rightarrow> DpsConfig \<Rightarrow> DpsConfig" where
  "setApiPath v this = this\<lparr>apiPath := Some v\<rparr>"

definition getDevelopmentMode :: "DpsConfig \<Rightarrow> bool" where
  "getDevelopmentMode this = nullish (developmentMode this) False"

definition setDevelopmentMode :: "bool \<Rightarrow> DpsConfig \<Rightarrow> DpsConfig" where
  "setDevelopmentMode v this = this\<lparr>developmentMode := Some v\<rparr>"

definition getAuthApiSubdomain :: "DpsConfig \<Rightarrow> jsstring" where
  "getAuthApiSubdomain this = nullish (authApiSubdomain this) (js ''auth'')"

definition setAuthApiSubdomain :: "jsstring \<Rightarrow> DpsConfig \<Rightarrow> DpsConfig" where
  "setAuthApiSubdomain v this = this\<lparr>authApiSubdomain := Some v\<rparr>"

definition getAuthApiPort :: "DpsConfig \<Rightarrow> number option" where
  "getAuthApiPort this = authApiPort this"

definition setAuthApiPort :: "number option \<Rightarrow> DpsConfig \<Rightarrow> DpsConfig" where
  "setAuthApiPort v this = this\<lparr>authApiPort := v\<rparr>"

definition getAuthApiProtocol :: "DpsConfig \<Rightarrow> jsstring" where
  "getAuthApiProtocol this = nullish (authApiProtocol this) (js ''https'')"

definition setAuthApiProtocol :: "jsstring \<Rightarrow> DpsConfig \<Rightarrow> DpsConfig" where
  "setAuthApiProtocol v this = this\<lparr>authApiProtocol := Some v\<rparr>"

definition getAuthApiInsecureCookie :: "DpsConfig \<Rightarrow> bool" where
  "getAuthApiInsecureCookie this = nullish (authApiInsecureCookie this) False"

definition setAuthApiInsecureCookie :: "bool \<Rightarrow> DpsConfig \<Rightarrow> DpsConfig" where
  "setAuthApiInsecureCookie v this = this\<lparr>authApiInsecureCookie := Some v\<rparr>"

definition getAuthApiSqliteMainFilePath :: "DpsConfig \<Rightarrow> jsstring" where
  "getAuthApiSqliteMainFilePath this =
     nullish (authApiSqliteMainFilePath this) (js ''data/main-development.db'')"

definition setAuthApiSqliteMainFilePath :: "jsstring \<Rightarrow> DpsConfig \<Rightarrow> DpsConfig" where
  "setAuthApiSqliteMainFilePath v this = this\<lparr>authApiSqliteMainFilePath := Some v\<rparr>"

definition getAuthApiSqliteMainPoolSize :: "DpsConfig \<Rightarrow> number" where
  "getAuthApiSqliteMainPoolSize this = nullish (authApiSqliteMainPoolSize this) (Num 1)"

definition setAuthApiSqliteMainPoolSize :: "number option \<Rightarrow> DpsConfig \<Rightarrow> DpsConfig" where
  "setAuthApiSqliteMainPoolSize v this = this\<lparr>authApiSqliteMainPoolSize := v\<rparr>"

definition getAuthApiSqliteCollectionFilePath :: "DpsConfig \<Rightarrow> jsstring" where
  "getAuthApiSqliteCollectionFilePath this =
     nullish (authApiSqliteCollectionFilePath this) (js ''data/collection-development.db'')"

definition setAuthApiSqliteCollectionFilePath :: "jsstring \<Rightarrow> DpsConfig \<Rightarrow> DpsConfig" where
  "setAuthApiSqliteCollectionFilePath v this = this\<lparr>authApiSqliteCollectionFilePath := Some v\<rparr>"

definition getAuthApiSqliteCollectionPoolSize :: "DpsConfig \<Rightarrow> number" where
  "getAuthApiSqliteCollectionPoolSize this =
     nullish (authApiSqliteCollectionPoolSize this) (Num 1)"

definition setAuthApiSqliteCollectionPoolSize :: "number option \<Rightarrow> DpsConfig \<Rightarrow> DpsConfig" where
  "setAuthApiSqliteCollectionPoolSize v this = this\<lparr>authApiSqliteCollectionPoolSize := v\<rparr>"

definition getAuthApiSqliteSessionFilePath :: "DpsConfig \<Rightarrow> jsstring" where
  "getAuthApiSqliteSessionFilePath this =
     nullish (authApiSqliteSessionFilePath this) (js ''data/session-development.db'')"

definition setAuthApiSqliteSessionFilePath :: "jsstring \<Rightarrow> DpsConfig \<Rightarrow> DpsConfig" where
  "setAuthApiSqliteSessionFilePath v this = this\<lparr>authApiSqliteSessionFilePath := Some v\<rparr>"

definition getAuthApiSqliteSessionPoolSize :: "DpsConfig \<Rightarrow> number" where
  "getAuthApiSqliteSessionPoolSize this = nullish (authApiSqliteSessionPoolSize this) (Num 1)"

definition setAuthApiSqliteSessionPoolSize :: "number option \<Rightarrow> DpsConfig \<Rightarrow> DpsConfig" where
  "setAuthApiSqliteSessionPoolSize v this = this\<lparr>authApiSqliteSessionPoolSize := v\<rparr>"

definition getAuthApiSessionSecret :: "DpsConfig \<Rightarrow> jsstring option" where
  "getAuthApiSessionSecret this = authApiSessionSecret this"

definition setAuthApiSessionSecret :: "jsstring option \<Rightarrow> DpsConfig \<Rightarrow> DpsConfig" where
  "setAuthApiSessionSecret v this = this\<lparr>authApiSessionSecret := v\<rparr>"

definition getAuthApiSessionTtlSeconds :: "DpsConfig \<Rightarrow> number" where
  "getAuthApiSessionTtlSeconds this = nullish (authApiSessionTtlSeconds this) (Num 1209600)"

definition setAuthApiSessionTtlSeconds :: "number option \<Rightarrow> DpsConfig \<Rightarrow> DpsConfig" where
  "setAuthApiSessionTtlSeconds v this = this\<lparr>authApiSessionTtlSeconds := v\<rparr>"

subsection \<open>Computed getters\<close>

text \<open>The decimal digits of a natural number.\<close>

fun decimal :: "nat \<Rightarrow> jsstring" where
  "decimal n = (if n < 10 then [of_nat (0x30 + n)]
                else decimal (n div 10) @ [of_nat (0x30 + n mod 10)])"

text \<open>
  The digits a positive number is printed with: the fewest significant digits \<open>k\<close> such
  that a decimal numeral of \<open>k\<close> digits followed by zeros still rounds to the number. For
  a given \<open>k\<close> the two numerals next to \<open>a\<close> are tried and the closer one is taken (the one
  with the even last digit when both are equally close).
\<close>

definition numerals_near :: "nat \<Rightarrow> nat \<Rightarrow> nat list" where
  "numerals_near a k =
     (let p = 10 ^ (length (decimal a) - k);
          lo = (a div p) * p;
          hi = lo + p
      in filter (\<lambda>c. c > 0 \<and> round_magnitude c = a)
           (if a - lo < hi - a then [lo, hi]
            else if hi - a < a - lo then [hi, lo]
            else if even (a div p) then [lo, hi] else [hi, lo]))"

definition shortest_numeral :: "nat \<Rightarrow> nat \<times> nat" where
  "shortest_numeral a =
     (case List.find (\<lambda>k. numerals_near a k \<noteq> []) [1 ..< Suc (length (decimal a))] of
        None \<Rightarrow> (a, length (decimal a))
      | Some k \<Rightarrow> (hd (numerals_near a k), k))"

text \<open>
  A positive integer-valued number as a string. Below \<open>2^53\<close> every integer is a number
  of its own and is printed with all its digits; above, the shortest numeral is printed,
  with plain digits up to 21 of them and in exponent notation beyond.
\<close>

definition positive_to_string :: "nat \<Rightarrow> jsstring" where
  "positive_to_string a =
     (if a < 2 ^ 53 then decimal a
      else let (c, k) = shortest_numeral a;
               ds = decimal c;
               n = length ds
           in if n \<le> 21 then ds
              else if k = 1 then take 1 ds @ js ''e+'' @ decimal (n - 1)
              else take 1 ds @ js ''.'' @ drop 1 (take k ds) @ js ''e+'' @ decimal (n - 1))"

text \<open>A number in a template literal.\<close>

fun number_to_string :: "number \<Rightarrow> jsstring" where
  "number_to_string NaN = js ''NaN''"
| "number_to_string NegZero = js ''0''"
| "number_to_string PosInfinity = js ''Infinity''"
| "number_to_string NegInfinity = js ''-Infinity''"
| "number_to_string (Num i) =
     (if i = 0 then js ''0''
      else if i < 0 then js ''-'' @ positive_to_string (nat (- i))
      else positive_to_string (nat i))"

text \<open>An optional number in a template literal.\<close>

definition template_number :: "number option \<Rightarrow> jsstring" where
  "template_number v = (case v of None \<Rightarrow> js ''undefined'' | Some x \<Rightarrow> number_to_string x)"

text \<open>An optional number in a condition: \<open>undefined\<close>, \<open>+0\<close>, \<open>-0\<close> and \<open>NaN\<close> are falsy.\<close>

fun truthy_number :: "number option \<Rightarrow> bool" where
  "truthy_number None = False"
| "truthy_number (Some (Num i)) = (i \<noteq> 0)"
| "truthy_number (Some NegZero) = False"
| "truthy_number (Some NaN) = False"
| "truthy_number (Some PosInfinity) = True"
| "truthy_number (Some NegInfinity) = True"

definition getAuthApiUrl :: "DpsConfig \<Rightarrow> jsstring" where
  "getAuthApiUrl this =
     (let protocol = getAuthApiProtocol this;
          authSub = getAuthApiSubdomain this;
          domain = getDomain this;
          apiPath = getApiPath this;
          port = getAuthApiPort this;
          portString = (if truthy_number port then js '':'' @ template_number port else js '''')
      in protocol @ js ''://'' @ authSub @ js ''.'' @ domain @ portString @ js ''/'' @ apiPath)"

subsection \<open>The secret as bytes\<close>

text \<open>
  \<open>new TextEncoder().encode(s)\<close> first reads the code units of the string as a sequence
  of scalar values: a lead surrogate followed by a trail surrogate is one code point
  above \<open>0xFFFF\<close>, and a surrogate on its own is replaced by \<open>U+FFFD\<close>. Code units, code
  points and bytes are handled as natural numbers here and stored as words at the end.
\<close>

definition is_lead :: "nat \<Rightarrow> bool" where
  "is_lead u = (0xD800 \<le> u \<and> u \<le> 0xDBFF)"

definition is_trail :: "nat \<Rightarrow> bool" where
  "is_trail u = (0xDC00 \<le> u \<and> u \<le> 0xDFFF)"

fun scalar_values :: "nat list \<Rightarrow> nat list" where
  "scalar_values [] = []"
| "scalar_values [c] = [if is_lead c \<or> is_trail c then 0xFFFD else c]"
| "scalar_values (c # d # cs) =
     (if is_lead c \<and> is_trail d
      then (0x10000 + (c - 0xD800) * 0x400 + (d - 0xDC00)) # scalar_values cs
      else (if is_lead c \<or> is_trail c then 0xFFFD else c) # scalar_values (d # cs))"

text \<open>The UTF-8 bytes of one scalar value: one to four bytes, by its size.\<close>

definition utf8_bytes :: "nat \<Rightarrow> nat list" where
  "utf8_bytes cp =
     (if cp < 0x80 then [cp]
      else if cp < 0x800 then
        [0xC0 + cp div 0x40, 0x80 + cp mod 0x40]
      else if cp < 0x10000 then
        [0xE0 + cp div 0x1000, 0x80 + cp div 0x40 mod 0x40, 0x80 + cp mod 0x40]
      else
        [0xF0 + cp div 0x40000, 0x80 + cp div 0x1000 mod 0x40,
         0x80 + cp div 0x40 mod 0x40, 0x80 + cp mod 0x40])"

definition TextEncoder_encode :: "jsstring \<Rightarrow> byte list" where
  "TextEncoder_encode s = map of_nat (concat (map utf8_bytes (scalar_values (map unat s))))"

definition getAuthApiSessionSecretBytes :: "DpsConfig \<Rightarrow> byte list option" where
  "getAuthApiSessionSecretBytes this =
     (case authApiSessionSecret this of
        None \<Rightarrow> None
      | Some s \<Rightarrow> Some (TextEncoder_encode s))"

subsection \<open>Decoding bytes back to text\<close>

text \<open>
  \<open>new TextDecoder().decode(bytes)\<close>, as the test suite of the repository reads the secret
  back: the UTF-8 decoder in its replacement mode. Its state is the code point being
  assembled, the number of continuation bytes seen and needed, and the range allowed for
  the next continuation byte.
\<close>

record utf8_decoder =
  code_point :: nat
  bytes_seen :: nat
  bytes_needed :: nat
  lower_boundary :: nat
  upper_boundary :: nat

definition utf8_initial :: utf8_decoder where
  "utf8_initial = \<lparr> code_point = 0, bytes_seen = 0, bytes_needed = 0,
                     lower_boundary = 0x80, upper_boundary = 0xBF \<rparr>"

text \<open>A byte met when no continuation byte is needed: the code points emitted and the
  next state.\<close>

definition utf8_first :: "nat \<Rightarrow> nat list \<times> utf8_decoder" where
  "utf8_first b =
     (if b \<le> 0x7F then ([b], utf8_initial)
      else if 0xC2 \<le> b \<and> b \<le> 0xDF then
        ([], utf8_initial\<lparr> bytes_needed := 1, code_point := b mod 0x20 \<rparr>)
      else if 0xE0 \<le> b \<and> b \<le> 0xEF then
        ([], utf8_initial\<lparr> bytes_needed := 2, code_point := b mod 0x10,
                             lower_boundary := (if b = 0xE0 then 0xA0 else 0x80),
                             upper_boundary := (if b = 0xED then 0x9F else 0xBF) \<rparr>)
      else if 0xF0 \<le> b \<and> b \<le> 0xF4 then
        ([], utf8_initial\<lparr> bytes_needed := 3, code_point := b mod 0x08,
                             lower_boundary := (if b = 0xF0 then 0x90 else 0x80),
                             upper_boundary := (if b = 0xF4 then 0x8F else 0xBF) \<rparr>)
      else ([0xFFFD], utf8_initial))"

text \<open>
  One byte: a byte outside the allowed range in the middle of a sequence ends the
  sequence with \<open>U+FFFD\<close> and is then read again as a first byte.
\<close>

definition utf8_step :: "utf8_decoder \<Rightarrow> nat \<Rightarrow> nat list \<times> utf8_decoder" where
  "utf8_step st b =
     (if bytes_needed st = 0 then utf8_first b
      else if b < lower_boundary st \<or> upper_boundary st < b then
        (let (out, st') = utf8_first b in (0xFFFD # out, st'))
      else
        (let cp = code_point st * 0x40 + b mod 0x40;
             seen = bytes_seen st + 1
         in if seen \<noteq> bytes_needed st
            then ([], st\<lparr> lower_boundary := 0x80, upper_boundary := 0xBF,
                           code_point := cp, bytes_seen := seen \<rparr>)
            else ([cp], utf8_initial)))"

fun utf8_decode :: "utf8_decoder \<Rightarrow> nat list \<Rightarrow> nat list" where
  "utf8_decode st [] = (if bytes_needed st \<noteq> 0 then [0xFFFD] else [])"
| "utf8_decode st (b # bs) = (let (out, st') = utf8_step st b in out @ utf8_decode st' bs)"

text \<open>A code point as code units of a string: itself, or a surrogate pair.\<close>

definition code_units :: "nat \<Rightarrow> nat list" where
  "code_units cp =
     (if cp < 0x10000 then [cp]
      else [0xD800 + (cp - 0x10000) div 0x400, 0xDC00 + (cp - 0x10000) mod 0x400])"

text \<open>The decoder of \<open>new TextDecoder()\<close> drops a byte order mark at the start.\<close>

definition TextDecoder_decode :: "byte list \<Rightarrow> jsstring" where
  "TextDecoder_decode bytes =
     (let input = map unat bytes;
          input' = (if take 3 input = [0xEF, 0xBB, 0xBF] then drop 3 input else input)
      in map of_nat (concat (map code_units (utf8_decode utf8_initial input'))))"

text \<open>A sequence of code units without a surrogate on its own.\<close>

fun paired_surrogates :: "nat list \<Rightarrow> bool" where
  "paired_surrogates [] = True"
| "paired_surrogates [c] = (\<not> is_lead c \<and> \<not> is_trail c)"
| "paired_surrogates (c # d # cs) =
     (if is_lead c then is_trail d \<and> paired_surrogates cs
      else \<not> is_trail c \<and> paired_surrogates (d # cs))"

definition well_formed :: "jsstring \<Rightarrow> bool" where
  "well_formed s = paired_surrogates (map unat s)"

section \<open>The public surface\<close>

text \<open>The environment variables the constructor reads, before the prefix is put in front.\<close>

definition variable_names :: "jsstring list" where
  "variable_names =
     [js ''DPS_DOMAIN'', js ''DPS_API_PATH'', js ''DPS_DEVELOPMENT_MODE'',
      js ''DPS_AUTH_API_SUBDOMAIN'', js ''DPS_AUTH_API_PORT'', js ''DPS_AUTH_API_PROTOCOL'',
      js ''DPS_AUTH_API_INSECURE_COOKIE'',
      js ''DPS_AUTH_API_SQLITE_MAIN_FILE_PATH'', js ''DPS_AUTH_API_SQLITE_MAIN_POOL_SIZE'',
      js ''DPS_AUTH_API_SQLITE_COLLECTION_FILE_PATH'',
      js ''DPS_AUTH_API_SQLITE_COLLECTION_POOL_SIZE'',
      js ''DPS_AUTH_API_SQLITE_SESSION_FILE_PATH'', js ''DPS_AUTH_API_SQLITE_SESSION_POOL_SIZE'',
      js ''DPS_AUTH_API_SESSION_SECRET'', js ''DPS_AUTH_API_SESSION_TTL_SECONDS'']"

text \<open>
  The getters and setters seen from a caller: one pair per setting, with values of any
  type. A setter call whose argument does not have the type of the setter's parameter is
  not a call of a type-checked program, and has no result here.
\<close>

datatype setting =
  Domain | ApiPath | DevelopmentMode
  | AuthApiSubdomain | AuthApiPort | AuthApiProtocol | AuthApiInsecureCookie
  | AuthApiSqliteMainFilePath | AuthApiSqliteMainPoolSize
  | AuthApiSqliteCollectionFilePath | AuthApiSqliteCollectionPoolSize
  | AuthApiSqliteSessionFilePath | AuthApiSqliteSessionPoolSize
  | AuthApiSessionSecret | AuthApiSessionTtlSeconds

datatype jsvalue = VUndefined | VString jsstring | VNumber number | VBoolean bool | VBytes "byte list"

definition optional :: "('a \<Rightarrow> jsvalue) \<Rightarrow> 'a option \<Rightarrow> jsvalue" where
  "optional wrap v = (case v of None \<Rightarrow> VUndefined | Some x \<Rightarrow> wrap x)"

fun call_getter :: "setting \<Rightarrow> DpsConfig \<Rightarrow> jsvalue" where
  "call_getter Domain this = VString (getDomain this)"
| "call_getter ApiPath this = VString (getApiPath this)"
| "call_getter DevelopmentMode this = VBoolean (getDevelopmentMode this)"
| "call_getter AuthApiSubdomain this = VString (getAuthApiSubdomain this)"
| "call_getter AuthApiPort this = optional VNumber (getAuthApiPort this)"
| "call_getter AuthApiProtocol this = VString (getAuthApiProtocol this)"
| "call_getter AuthApiInsecureCookie this = VBoolean (getAuthApiInsecureCookie this)"
| "call_getter AuthApiSqliteMainFilePath this = VString (getAuthApiSqliteMainFilePath this)"
| "call_getter AuthApiSqliteMainPoolSize this = VNumber (getAuthApiSqliteMainPoolSize this)"
| "call_getter AuthApiSqliteCollectionFilePath this =
     VString (getAuthApiSqliteCollectionFilePath this)"
| "call_getter AuthApiSqliteCollectionPoolSize this =
     VNumber (getAuthApiSqliteCollectionPoolSize this)"
| "call_getter AuthApiSqliteSessionFilePath this =
     VString (getAuthApiSqliteSessionFilePath this)"
| "call_getter AuthApiSqliteSessionPoolSize this =
     VNumber (getAuthApiSqliteSessionPoolSize this)"
| "call_getter AuthApiSessionSecret this = optional VString (getAuthApiSessionSecret this)"
| "call_getter AuthApiSessionTtlSeconds this = VNumber (getAuthApiSessionTtlSeconds this)"

text \<open>Arguments by the parameter types of the setters: \<open>string\<close>, \<open>boolean\<close>,
  \<open>number | undefined\<close> and \<open>string | undefined\<close>.\<close>

definition string_argument :: "jsvalue \<Rightarrow> jsstring option" where
  "string_argument v = (case v of VString x \<Rightarrow> Some x | _ \<Rightarrow> None)"

definition boolean_argument :: "jsvalue \<Rightarrow> bool option" where
  "boolean_argument v = (case v of VBoolean x \<Rightarrow> Some x | _ \<Rightarrow> None)"

definition number_or_undefined :: "jsvalue \<Rightarrow> number option option" where
  "number_or_undefined v =
     (case v of VNumber x \<Rightarrow> Some (Some x) | VUndefined \<Rightarrow> Some None | _ \<Rightarrow> None)"

definition string_or_undefined :: "jsvalue \<Rightarrow> jsstring option option" where
  "string_or_undefined v =
     (case v of VString x \<Rightarrow> Some (Some x) | VUndefined \<Rightarrow> Some None | _ \<Rightarrow> None)"

fun call_setter :: "setting \<Rightarrow> jsvalue \<Rightarrow> DpsConfig \<Rightarrow> DpsConfig option" where
  "call_setter Domain v this = map_option (\<lambda>x. setDomain x this) (string_argument v)"
| "call_setter ApiPath v this = map_option (\<lambda>x. setApiPath x this) (string_argument v)"
| "call_setter DevelopmentMode v this =
     map_option (\<lambda>x. setDevelopmentMode x this) (boolean_argument v)"
| "call_setter AuthApiSubdomain v this =
     map_option (\<lambda>x. setAuthApiSubdomain x this) (string_argument v)"
| "call_setter AuthApiPort v this =
     map_option (\<lambda>x. setAuthApiPort x this) (number_or_undefined v)"
| "call_setter AuthApiProtocol v this =
     map_option (\<lambda>x. setAuthApiProtocol x this) (string_argument v)"
| "call_setter AuthApiInsecureCookie v this =
     map_option (\<lambda>x. setAuthApiInsecureCookie x this) (boolean_argument v)"
| "call_setter AuthApiSqliteMainFilePath v this =
     map_option (\<lambda>x. setAuthApiSqliteMainFilePath x this) (string_argument v)"
| "call_setter AuthApiSqliteMainPoolSize v this =
     map_option (\<lambda>x. setAuthApiSqliteMainPoolSize x this) (number_or_undefined v)"
| "call_setter AuthApiSqliteCollectionFilePath v this =
     map_option (\<lambda>x. setAuthApiSqliteCollectionFilePath x this) (string_argument v)"
| "call_setter AuthApiSqliteCollectionPoolSize v this =
     map_option (\<lambda>x. setAuthApiSqliteCollectionPoolSize x this) (number_or_undefined v)"
| "call_setter AuthApiSqliteSessionFilePath v this =
     map_option (\<lambda>x. setAuthApiSqliteSessionFilePath x this) (string_argument v)"
| "call_setter AuthApiSqliteSessionPoolSize v this =
     map_option (\<lambda>x. setAuthApiSqliteSessionPoolSize x this) (number_or_undefined v)"
| "call_setter AuthApiSessionSecret v this =
     map_option (\<lambda>x. setAuthApiSessionSecret x this) (string_or_undefined v)"
| "call_setter AuthApiSessionTtlSeconds v this =
     map_option (\<lambda>x. setAuthApiSessionTtlSeconds x this) (number_or_undefined v)"

text \<open>The type a setting is declared with (its private field, without the \<open>?\<close>), and
  the values of each type.\<close>

datatype setting_type = TString | TNumber | TBoolean

fun type_of_setting :: "setting \<Rightarrow> setting_type" where
  "type_of_setting Domain = TString"
| "type_of_setting ApiPath = TString"
| "type_of_setting DevelopmentMode = TBoolean"
| "type_of_setting AuthApiSubdomain = TString"
| "type_of_setting AuthApiPort = TNumber"
| "type_of_setting AuthApiProtocol = TString"
| "type_of_setting AuthApiInsecureCookie = TBoolean"
| "type_of_setting AuthApiSqliteMainFilePath = TString"
| "type_of_setting AuthApiSqliteMainPoolSize = TNumber"
| "type_of_setting AuthApiSqliteCollectionFilePath = TString"
| "type_of_setting AuthApiSqliteCollectionPoolSize = TNumber"
| "type_of_setting AuthApiSqliteSessionFilePath = TString"
| "type_of_setting AuthApiSqliteSessionPoolSize = TNumber"
| "type_of_setting AuthApiSessionSecret = TString"
| "type_of_setting AuthApiSessionTtlSeconds = TNumber"

fun has_type :: "setting_type \<Rightarrow> jsvalue \<Rightarrow> bool" where
  "has_type TString (VString x) = True"
| "has_type TNumber (VNumber x) = True"
| "has_type TBoolean (VBoolean x) = True"
| "has_type t v = False"



text \<open>A Unicode scalar value: a code point that is not a surrogate.\<close>

definition is_scalar :: "nat \<Rightarrow> bool" where
  "is_scalar cp = (cp < 0x110000 \<and> (cp < 0xD800 \<or> 0xDFFF < cp))"

section \<open>Auxiliary facts\<close>

subsection \<open>Decoding what the encoder wrote\<close>

lemmas utf8_defs = utf8_step_def utf8_first_def utf8_initial_def

lemma mod_offset: "r < m \<Longrightarrow> (q * m + r) mod m = (r::nat)"
  by simp

lemma cont_mod: "(r::nat) < 0x40 \<Longrightarrow> (0x80 + r) mod 0x40 = r"
  using mod_offset [of r 64 2] by simp

lemma div_4096: "(cp::nat) div 0x1000 = cp div 0x40 div 0x40"
  by (simp add: div_mult2_eq [symmetric])

lemma div_262144: "(cp::nat) div 0x40000 = cp div 0x40 div 0x40 div 0x40"
  by (simp add: div_mult2_eq [symmetric])

lemma decode_1:
  assumes "cp < 0x80"
  shows "utf8_decode utf8_initial (utf8_bytes cp @ bs) = cp # utf8_decode utf8_initial bs"
  using assms by (simp add: utf8_bytes_def utf8_defs)

lemma decode_2:
  assumes "0x80 \<le> cp" "cp < 0x800"
  shows "utf8_decode utf8_initial (utf8_bytes cp @ bs) = cp # utf8_decode utf8_initial bs"
proof -
  define a r where "a = cp div 0x40" and "r = cp mod 0x40"
  have cp: "a * 0x40 + r = cp" unfolding a_def r_def by simp
  have r: "r < 0x40" unfolding r_def by simp
  have a: "2 \<le> a" "a < 0x20" using assms unfolding a_def by linarith+
  have m1: "(0xC0 + a) mod 0x20 = a" using a mod_offset [of a 32 6] by simp
  have b: "utf8_bytes cp = [0xC0 + a, 0x80 + r]"
    using assms by (simp add: utf8_bytes_def a_def r_def)
  have s1: "utf8_step utf8_initial (0xC0 + a) =
      ([], utf8_initial\<lparr> bytes_needed := 1, code_point := a \<rparr>)"
    using a by (simp add: utf8_defs m1)
  have s2: "utf8_step (utf8_initial\<lparr> bytes_needed := 1, code_point := a \<rparr>) (0x80 + r) =
      ([cp], utf8_initial)"
    using r by (simp add: utf8_defs cont_mod cp)
  show ?thesis
    unfolding b by (simp only: append_Cons append_Nil utf8_decode.simps s1 s2 Let_def prod.case)
qed

lemma decode_3:
  assumes "0x800 \<le> cp" "cp < 0x10000" "cp < 0xD800 \<or> 0xDFFF < cp"
  shows "utf8_decode utf8_initial (utf8_bytes cp @ bs) = cp # utf8_decode utf8_initial bs"
proof -
  define x r a m where "x = cp div 0x40" and "r = cp mod 0x40"
    and "a = x div 0x40" and "m = x mod 0x40"
  have cp: "x * 0x40 + r = cp" unfolding x_def r_def by simp
  have x: "a * 0x40 + m = x" unfolding a_def m_def by simp
  have r: "r < 0x40" unfolding r_def by simp
  have m: "m < 0x40" unfolding m_def by simp
  have a: "a < 0x10" using assms(2) cp x by linarith
  have lo: "a = 0 \<Longrightarrow> 0x20 \<le> m" using assms(1) cp x r by linarith
  have hi: "a = 13 \<Longrightarrow> m < 0x20" using assms(2,3) cp x r m by linarith
  have m1: "(0xE0 + a) mod 0x10 = a" using a mod_offset [of a 16 14] by simp
  have b: "utf8_bytes cp = [0xE0 + a, 0x80 + m, 0x80 + r]"
    using assms by (simp add: utf8_bytes_def a_def r_def m_def x_def div_4096)
  let ?st1 = "utf8_initial\<lparr> bytes_needed := 2, code_point := a,
      lower_boundary := (if a = 0 then 0xA0 else 0x80),
      upper_boundary := (if a = 13 then 0x9F else 0xBF) \<rparr>"
  let ?st2 = "?st1\<lparr> lower_boundary := 0x80, upper_boundary := 0xBF,
      code_point := x, bytes_seen := 1 \<rparr>"
  have s1: "utf8_step utf8_initial (0xE0 + a) = ([], ?st1)"
    using a by (simp add: utf8_defs m1)
  have s2: "utf8_step ?st1 (0x80 + m) = ([], ?st2)"
    using m lo hi by (auto simp: utf8_defs cont_mod x)
  have s3: "utf8_step ?st2 (0x80 + r) = ([cp], utf8_initial)"
    using r by (simp add: utf8_defs cont_mod cp)
  show ?thesis
    unfolding b by (simp only: append_Cons append_Nil utf8_decode.simps s1 s2 s3 Let_def prod.case)
qed

lemma decode_4:
  assumes "0x10000 \<le> cp" "cp < 0x110000"
  shows "utf8_decode utf8_initial (utf8_bytes cp @ bs) = cp # utf8_decode utf8_initial bs"
proof -
  define x r y n a m where "x = cp div 0x40" and "r = cp mod 0x40"
    and "y = x div 0x40" and "n = x mod 0x40" and "a = y div 0x40" and "m = y mod 0x40"
  have cp: "x * 0x40 + r = cp" unfolding x_def r_def by simp
  have x: "y * 0x40 + n = x" unfolding y_def n_def by simp
  have y: "a * 0x40 + m = y" unfolding a_def m_def by simp
  have r: "r < 0x40" unfolding r_def by simp
  have n: "n < 0x40" unfolding n_def by simp
  have m: "m < 0x40" unfolding m_def by simp
  have a: "a \<le> 4" using assms(2) cp x y by linarith
  have lo: "a = 0 \<Longrightarrow> 0x10 \<le> m" using assms(1) cp x y r n by linarith
  have hi: "a = 4 \<Longrightarrow> m < 0x10" using assms(2) cp x y by linarith
  have m1: "(0xF0 + a) mod 0x08 = a" using a mod_offset [of a 8 30] by simp
  have b: "utf8_bytes cp = [0xF0 + a, 0x80 + m, 0x80 + n, 0x80 + r]"
    using assms
    by (simp add: utf8_bytes_def a_def r_def m_def n_def x_def y_def div_4096 div_262144)
  let ?st1 = "utf8_initial\<lparr> bytes_needed := 3, code_point := a,
      lower_boundary := (if a = 0 then 0x90 else 0x80),
      upper_boundary := (if a = 4 then 0x8F else 0xBF) \<rparr>"
  let ?st2 = "?st1\<lparr> lower_boundary := 0x80, upper_boundary := 0xBF,
      code_point := y, bytes_seen := 1 \<rparr>"
  let ?st3 = "?st2\<lparr> lower_boundary := 0x80, upper_boundary := 0xBF,
      code_point := x, bytes_seen := 2 \<rparr>"
  have s1: "utf8_step utf8_initial (0xF0 + a) = ([], ?st1)"
    using a by (simp add: utf8_defs m1)
  have s2: "utf8_step ?st1 (0x80 + m) = ([], ?st2)"
    using m lo hi by (auto simp: utf8_defs cont_mod y)
  have s3: "utf8_step ?st2 (0x80 + n) = ([], ?st3)"
    using n by (simp add: utf8_defs cont_mod x)
  have s4: "utf8_step ?st3 (0x80 + r) = ([cp], utf8_initial)"
    using r by (simp add: utf8_defs cont_mod cp)
  show ?thesis
    unfolding b
    by (simp only: append_Cons append_Nil utf8_decode.simps s1 s2 s3 s4 Let_def prod.case)
qed

lemma decode_scalar:
  assumes "is_scalar cp"
  shows "utf8_decode utf8_initial (utf8_bytes cp @ bs) = cp # utf8_decode utf8_initial bs"
proof -
  consider "cp < 0x80" | "0x80 \<le> cp" "cp < 0x800" | "0x800 \<le> cp" "cp < 0x10000"
    | "0x10000 \<le> cp" by linarith
  then show ?thesis
    using assms decode_1 decode_2 decode_3 decode_4 unfolding is_scalar_def by cases blast+
qed

lemma decode_scalars:
  "\<forall>cp \<in> set cps. is_scalar cp \<Longrightarrow> utf8_decode utf8_initial (concat (map utf8_bytes cps)) = cps"
proof (induction cps)
  case Nil
  show ?case by (simp add: utf8_initial_def)
next
  case (Cons cp cps)
  then show ?case by (simp add: decode_scalar)
qed

lemma scalar_values_scalar:
  "\<forall>u \<in> set us. u < 0x10000 \<Longrightarrow> \<forall>cp \<in> set (scalar_values us). is_scalar cp"
proof (induction us rule: scalar_values.induct)
  case 1
  show ?case by simp
next
  case (2 c)
  then show ?case by (auto simp: is_scalar_def is_lead_def is_trail_def)
next
  case (3 c d cs)
  then show ?case by (auto simp: is_scalar_def is_lead_def is_trail_def)
qed

lemma code_units_pair:
  assumes "is_lead c" "is_trail d"
  shows "code_units (0x10000 + (c - 0xD800) * 0x400 + (d - 0xDC00)) = [c, d]"
proof -
  define h l where "h = c - 0xD800" and "l = d - 0xDC00"
  have c: "c = 0xD800 + h" and d: "d = 0xDC00 + l" and l: "l < 0x400"
    using assms by (auto simp: h_def l_def is_lead_def is_trail_def)
  have "(h * 0x400 + l) div 0x400 = h" "(h * 0x400 + l) mod 0x400 = l"
    using l by simp_all
  then show ?thesis
    unfolding h_def [symmetric] l_def [symmetric] c d by (simp add: code_units_def)
qed

lemma code_units_scalar_values:
  "paired_surrogates us \<Longrightarrow> \<forall>u \<in> set us. u < 0x10000 \<Longrightarrow>
   concat (map code_units (scalar_values us)) = us"
proof (induction us rule: scalar_values.induct)
  case 1
  show ?case by simp
next
  case (2 c)
  then show ?case by (simp add: code_units_def)
next
  case (3 c d cs)
  show ?case
  proof (cases "is_lead c")
    case True
    with "3.prems" have t: "is_trail d" and p: "paired_surrogates cs" by simp_all
    from "3.IH"(1) True t p "3.prems"(2)
    have "concat (map code_units (scalar_values cs)) = cs" by simp
    with True t show ?thesis by (simp add: code_units_pair)
  next
    case False
    with "3.prems" have nt: "\<not> is_trail c" and p: "paired_surrogates (d # cs)" by simp_all
    from "3.IH"(2) False p "3.prems"(2)
    have "concat (map code_units (scalar_values (d # cs))) = d # cs" by simp
    moreover have "code_units c = [c]" using "3.prems"(2) by (simp add: code_units_def)
    ultimately show ?thesis using False nt by simp
  qed
qed

lemma utf8_bytes_bound: "cp < 0x110000 \<Longrightarrow> \<forall>b \<in> set (utf8_bytes cp). b < 256"
proof -
  assume "cp < 0x110000"
  then have "cp div 0x40000 < 8" by linarith
  moreover have "cp < 0x10000 \<Longrightarrow> cp div 0x1000 < 16" by linarith
  moreover have "cp < 0x800 \<Longrightarrow> cp div 0x40 < 32" by linarith
  moreover have "cp mod 0x40 < 0x40" "cp div 0x40 mod 0x40 < 0x40" "cp div 0x1000 mod 0x40 < 0x40"
    by simp_all
  ultimately show ?thesis by (auto simp: utf8_bytes_def)
qed

lemma encoded_bytes_bound:
  "\<forall>cp \<in> set cps. is_scalar cp \<Longrightarrow> \<forall>b \<in> set (concat (map utf8_bytes cps)). b < 256"
  using utf8_bytes_bound by (auto simp: is_scalar_def)

lemma map_unat_bytes: "\<forall>b \<in> set bs. b < 256 \<Longrightarrow> map unat (map of_nat bs :: byte list) = bs"
  by (induction bs) (simp_all add: unat_of_nat)

lemma map_of_nat_units: "map of_nat (map unat s) = (s :: jsstring)"
  by (induction s) simp_all

lemma unat_unit_bound: "\<forall>u \<in> set (map unat (s :: jsstring)). u < 0x10000"
proof
  fix u assume "u \<in> set (map unat s)"
  then obtain c :: code_unit where "u = unat c" by auto
  moreover have "unat c < 2 ^ LENGTH(16)" by (rule unsigned_less)
  ultimately show "u < 0x10000" by simp
qed

lemma utf8_bytes_no_bom:
  assumes "cp \<noteq> 0xFEFF"
  shows "take 3 (utf8_bytes cp @ rest) \<noteq> [0xEF, 0xBB, 0xBF]"
proof -
  consider "cp < 0x80" | "0x80 \<le> cp" "cp < 0x800" | "0x800 \<le> cp" "cp < 0x10000"
    | "0x10000 \<le> cp" by linarith
  then show ?thesis
  proof cases
    case 1
    then show ?thesis by (simp add: utf8_bytes_def)
  next
    case 2
    then have "cp div 0x40 < 0x20" by linarith
    with 2 show ?thesis by (simp add: utf8_bytes_def)
  next
    case 3
    define x r a m where "x = cp div 0x40" and "r = cp mod 0x40"
      and "a = x div 0x40" and "m = x mod 0x40"
    have cp: "x * 0x40 + r = cp" unfolding x_def r_def by simp
    have x: "a * 0x40 + m = x" unfolding a_def m_def by simp
    have b: "utf8_bytes cp = [0xE0 + a, 0x80 + m, 0x80 + r]"
      using 3 by (simp add: utf8_bytes_def a_def r_def m_def x_def div_4096)
    have "\<not> (a = 15 \<and> m = 0x3B \<and> r = 0x3F)" using assms cp x by linarith
    then show ?thesis unfolding b by auto
  next
    case 4
    then show ?thesis by (simp add: utf8_bytes_def)
  qed
qed

lemma scalar_values_first:
  assumes "us \<noteq> []" "hd us \<noteq> 0xFEFF"
  shows "\<exists>cp rest. scalar_values us = cp # rest \<and> cp \<noteq> 0xFEFF"
proof (cases us rule: scalar_values.cases)
  case 1
  with assms show ?thesis by simp
next
  case (2 c)
  with assms show ?thesis by simp
next
  case (3 c d cs)
  with assms show ?thesis by simp
qed

lemma encoded_no_bom:
  assumes "us = [] \<or> hd us \<noteq> 0xFEFF"
  shows "take 3 (concat (map utf8_bytes (scalar_values us))) \<noteq> [0xEF, 0xBB, 0xBF]"
proof (cases "us = []")
  case True
  then show ?thesis by simp
next
  case False
  with assms scalar_values_first obtain cp rest
    where "scalar_values us = cp # rest" "cp \<noteq> 0xFEFF" by blast
  then show ?thesis
    using utf8_bytes_no_bom [of cp "concat (map utf8_bytes rest)"] by simp
qed

lemma hd_unat_bom: "s \<noteq> [] \<Longrightarrow> hd (s :: jsstring) \<noteq> 0xFEFF \<Longrightarrow> hd (map unat s) \<noteq> 0xFEFF"
  by (cases s) (simp_all add: word_unat_eq_iff)

lemma decode_encode:
  assumes "well_formed s" "s = [] \<or> hd s \<noteq> 0xFEFF"
  shows "TextDecoder_decode (TextEncoder_encode s) = s"
proof -
  let ?us = "map unat s"
  let ?bs = "concat (map utf8_bytes (scalar_values ?us))"
  have units: "\<forall>u \<in> set ?us. u < 0x10000" by (rule unat_unit_bound)
  have scalars: "\<forall>cp \<in> set (scalar_values ?us). is_scalar cp"
    using units by (rule scalar_values_scalar)
  have bytes: "map unat (map of_nat ?bs :: byte list) = ?bs"
    using scalars by (intro map_unat_bytes encoded_bytes_bound)
  have "?us = [] \<or> hd ?us \<noteq> 0xFEFF" using assms(2) hd_unat_bom by auto
  then have bom: "take 3 ?bs \<noteq> [0xEF, 0xBB, 0xBF]" by (rule encoded_no_bom)
  have dec: "utf8_decode utf8_initial ?bs = scalar_values ?us"
    using scalars by (rule decode_scalars)
  have units_back: "concat (map code_units (scalar_values ?us)) = ?us"
    using assms(1) units unfolding well_formed_def by (rule code_units_scalar_values)
  show ?thesis
    unfolding TextDecoder_decode_def TextEncoder_encode_def Let_def bytes
    using bom by (simp only: if_False dec units_back map_of_nat_units)
qed

subsection \<open>What the loaders and the constructor return\<close>

lemma loadEnvString_result:
  "loadEnvString env p k =
     Inr (case env (p @ k) of None \<Rightarrow> None | Some s \<Rightarrow> if s = [] then None else Some s)"
  by (simp add: loadEnvString_def truthy_string_def length_of_def split: option.splits)

lemma loadEnvBool_result:
  "loadEnvBool env p k =
     Inr (case env (p @ k) of None \<Rightarrow> None | Some s \<Rightarrow> Some (s = js ''Y''))"
  by (simp add: loadEnvBool_def split: option.splits)

lemma loadEnvNumber_result:
  "loadEnvNumber env p k =
     Inr (case env (p @ k) of None \<Rightarrow> None
          | Some s \<Rightarrow> if s = [] \<or> parseInt s 10 = NaN then None else Some (parseInt s 10))"
  by (simp add: loadEnvNumber_def length_of_def ToString_def isNaN_def split: option.splits)

lemma new_DpsConfig_result:
  "new_DpsConfig env arg =
     Inr \<lparr> domain = projr (loadEnvString env (default_prefix arg) (js ''DPS_DOMAIN'')),
           apiPath = projr (loadEnvString env (default_prefix arg) (js ''DPS_API_PATH'')),
           developmentMode =
             projr (loadEnvBool env (default_prefix arg) (js ''DPS_DEVELOPMENT_MODE'')),
           authApiSubdomain =
             projr (loadEnvString env (default_prefix arg) (js ''DPS_AUTH_API_SUBDOMAIN'')),
           authApiPort =
             projr (loadEnvNumber env (default_prefix arg) (js ''DPS_AUTH_API_PORT'')),
           authApiProtocol =
             projr (loadEnvString env (default_prefix arg) (js ''DPS_AUTH_API_PROTOCOL'')),
           authApiInsecureCookie =
             projr (loadEnvBool env (default_prefix arg) (js ''DPS_AUTH_API_INSECURE_COOKIE'')),
           authApiSqliteMainFilePath =
             projr (loadEnvString env (default_prefix arg)
               (js ''DPS_AUTH_API_SQLITE_MAIN_FILE_PATH'')),
           authApiSqliteMainPoolSize =
             projr (loadEnvNumber env (default_prefix arg)
               (js ''DPS_AUTH_API_SQLITE_MAIN_POOL_SIZE'')),
           authApiSqliteCollectionFilePath =
             projr (loadEnvString env (default_prefix arg)
               (js ''DPS_AUTH_API_SQLITE_COLLECTION_FILE_PATH'')),
           authApiSqliteCollectionPoolSize =
             projr (loadEnvNumber env (default_prefix arg)
               (js ''DPS_AUTH_API_SQLITE_COLLECTION_POOL_SIZE'')),
           authApiSqliteSessionFilePath =
             projr (loadEnvString env (default_prefix arg)
               (js ''DPS_AUTH_API_SQLITE_SESSION_FILE_PATH'')),
           authApiSqliteSessionPoolSize =
             projr (loadEnvNumber env (default_prefix arg)
               (js ''DPS_AUTH_API_SQLITE_SESSION_POOL_SIZE'')),
           authApiSessionSecret =
             projr (loadEnvString env (default_prefix arg) (js ''DPS_AUTH_API_SESSION_SECRET'')),
           authApiSessionTtlSeconds =
             projr (loadEnvNumber env (default_prefix arg)
               (js ''DPS_AUTH_API_SESSION_TTL_SECONDS'')) \<rparr>"
  by (simp add: new_DpsConfig_def and_then_def Let_def loadEnvString_result loadEnvBool_result
      loadEnvNumber_result)

lemmas loader_results = loadEnvString_result loadEnvBool_result loadEnvNumber_result

lemmas getter_defs = getDomain_def getApiPath_def getDevelopmentMode_def
  getAuthApiSubdomain_def getAuthApiPort_def getAuthApiProtocol_def
  getAuthApiInsecureCookie_def getAuthApiSqliteMainFilePath_def
  getAuthApiSqliteMainPoolSize_def getAuthApiSqliteCollectionFilePath_def
  getAuthApiSqliteCollectionPoolSize_def getAuthApiSqliteSessionFilePath_def
  getAuthApiSqliteSessionPoolSize_def getAuthApiSessionSecret_def
  getAuthApiSessionTtlSeconds_def nullish_def

lemmas setter_defs = setDomain_def setApiPath_def setDevelopmentMode_def
  setAuthApiSubdomain_def setAuthApiPort_def setAuthApiProtocol_def
  setAuthApiInsecureCookie_def setAuthApiSqliteMainFilePath_def
  setAuthApiSqliteMainPoolSize_def setAuthApiSqliteCollectionFilePath_def
  setAuthApiSqliteCollectionPoolSize_def setAuthApiSqliteSessionFilePath_def
  setAuthApiSqliteSessionPoolSize_def setAuthApiSessionSecret_def
  setAuthApiSessionTtlSeconds_def

subsection \<open>Setter calls by type\<close>

lemmas argument_defs = string_argument_def boolean_argument_def number_or_undefined_def
  string_or_undefined_def optional_def

lemma call_setter_typed:
  assumes "has_type (type_of_setting s) v"
  shows "\<exists>this'. call_setter s v this = Some this' \<and> call_getter s this' = v"
  using assms
  by (cases s; cases v) (simp_all add: argument_defs setter_defs getter_defs)

lemma call_setter_frame:
  assumes "call_setter s v this = Some this'" "s' \<noteq> s"
  shows "call_getter s' this' = call_getter s' this"
  using assms
  by (cases s; cases s') (auto simp: setter_defs getter_defs)

subsection \<open>Parsing decimal digits\<close>












subsection \<open>An empty value and no value\<close>

lemma loadEnvString_empty_absent:
  "loadEnvString (env(n \<mapsto> [])) p k = loadEnvString (env(n := None)) p k"
  by (simp add: loadEnvString_result)

lemma loadEnvNumber_empty_absent:
  "loadEnvNumber (env(n \<mapsto> [])) p k = loadEnvNumber (env(n := None)) p k"
  by (simp add: loadEnvNumber_result)

lemma loadEnvBool_empty_absent:
  "nullish (projr (loadEnvBool (env(n \<mapsto> [])) p k)) False =
   nullish (projr (loadEnvBool (env(n := None)) p k)) False"
  by (simp add: loadEnvBool_result nullish_def js_def)

lemma new_DpsConfig_empty_absent:
  assumes a: "new_DpsConfig (env(n \<mapsto> [])) arg = Inr a"
    and b: "new_DpsConfig (env(n := None)) arg = Inr b"
  shows "(\<forall>s. call_getter s a = call_getter s b)
    \<and> getAuthApiUrl a = getAuthApiUrl b
    \<and> getAuthApiSessionSecretBytes a = getAuthApiSessionSecretBytes b"
proof -
  note eqs = loadEnvString_empty_absent loadEnvNumber_empty_absent loadEnvBool_empty_absent
  have g: "getDomain a = getDomain b" "getApiPath a = getApiPath b"
    "getDevelopmentMode a = getDevelopmentMode b"
    "getAuthApiSubdomain a = getAuthApiSubdomain b"
    "getAuthApiPort a = getAuthApiPort b"
    "getAuthApiProtocol a = getAuthApiProtocol b"
    "getAuthApiInsecureCookie a = getAuthApiInsecureCookie b"
    "getAuthApiSqliteMainFilePath a = getAuthApiSqliteMainFilePath b"
    "getAuthApiSqliteMainPoolSize a = getAuthApiSqliteMainPoolSize b"
    "getAuthApiSqliteCollectionFilePath a = getAuthApiSqliteCollectionFilePath b"
    "getAuthApiSqliteCollectionPoolSize a = getAuthApiSqliteCollectionPoolSize b"
    "getAuthApiSqliteSessionFilePath a = getAuthApiSqliteSessionFilePath b"
    "getAuthApiSqliteSessionPoolSize a = getAuthApiSqliteSessionPoolSize b"
    "getAuthApiSessionSecret a = getAuthApiSessionSecret b"
    "getAuthApiSessionTtlSeconds a = getAuthApiSessionTtlSeconds b"
    using a b unfolding new_DpsConfig_result
    by (auto simp: getDomain_def getApiPath_def getDevelopmentMode_def
      getAuthApiSubdomain_def getAuthApiPort_def getAuthApiProtocol_def
      getAuthApiInsecureCookie_def getAuthApiSqliteMainFilePath_def
      getAuthApiSqliteMainPoolSize_def getAuthApiSqliteCollectionFilePath_def
      getAuthApiSqliteCollectionPoolSize_def getAuthApiSqliteSessionFilePath_def
      getAuthApiSqliteSessionPoolSize_def getAuthApiSessionSecret_def
      getAuthApiSessionTtlSeconds_def eqs)
  have "call_getter s a = call_getter s b" for s
    by (cases s) (simp_all add: g)
  moreover have "getAuthApiUrl a = getAuthApiUrl b"
    by (simp add: getAuthApiUrl_def g)
  moreover have "getAuthApiSessionSecretBytes a = getAuthApiSessionSecretBytes b"
    using g(14) by (simp add: getAuthApiSessionSecretBytes_def getAuthApiSessionSecret_def)
  ultimately show ?thesis by blast
qed

section \<open>The claims\<close>

text \<open>
  C1. For every environment, prefix and variable name, the boolean loader returns
  \<open>true\<close> if the value is exactly the one-character string \<open>"Y"\<close>, \<open>undefined\<close> if the
  variable is absent and \<open>false\<close> for any other value that is present, the empty string
  included. Construction never raises; it stores these results for \<open>developmentMode\<close> and
  \<open>authApiInsecureCookie\<close>, so each of the two getters returns \<open>true\<close> exactly when the
  variable is \<open>"Y"\<close> and \<open>false\<close> both when it is absent and when it has another value.
\<close>

theorem boolean_loader:
  "loadEnvBool env prefix key =
     Inr (case env (prefix @ key) of None \<Rightarrow> None | Some v \<Rightarrow> Some (v = [0x59]))
   \<and> (\<exists>this. new_DpsConfig env arg = Inr this
        \<and> developmentMode this =
            (case env (default_prefix arg @ js ''DPS_DEVELOPMENT_MODE'') of
               None \<Rightarrow> None | Some v \<Rightarrow> Some (v = js ''Y''))
        \<and> getDevelopmentMode this =
            (env (default_prefix arg @ js ''DPS_DEVELOPMENT_MODE'') = Some (js ''Y''))
        \<and> authApiInsecureCookie this =
            (case env (default_prefix arg @ js ''DPS_AUTH_API_INSECURE_COOKIE'') of
               None \<Rightarrow> None | Some v \<Rightarrow> Some (v = js ''Y''))
        \<and> getAuthApiInsecureCookie this =
            (env (default_prefix arg @ js ''DPS_AUTH_API_INSECURE_COOKIE'') = Some (js ''Y'')))"
proof
  show "loadEnvBool env prefix key =
     Inr (case env (prefix @ key) of None \<Rightarrow> None | Some v \<Rightarrow> Some (v = [0x59]))"
    by (simp add: loadEnvBool_result js_def split: option.splits)
next
  show "\<exists>this. new_DpsConfig env arg = Inr this
        \<and> developmentMode this =
            (case env (default_prefix arg @ js ''DPS_DEVELOPMENT_MODE'') of
               None \<Rightarrow> None | Some v \<Rightarrow> Some (v = js ''Y''))
        \<and> getDevelopmentMode this =
            (env (default_prefix arg @ js ''DPS_DEVELOPMENT_MODE'') = Some (js ''Y''))
        \<and> authApiInsecureCookie this =
            (case env (default_prefix arg @ js ''DPS_AUTH_API_INSECURE_COOKIE'') of
               None \<Rightarrow> None | Some v \<Rightarrow> Some (v = js ''Y''))
        \<and> getAuthApiInsecureCookie this =
            (env (default_prefix arg @ js ''DPS_AUTH_API_INSECURE_COOKIE'') = Some (js ''Y''))"
    unfolding new_DpsConfig_result
    by (simp add: loadEnvBool_result getDevelopmentMode_def getAuthApiInsecureCookie_def
        nullish_def split: option.splits)
qed

text \<open>The four cases on concrete environments: \<open>"Y"\<close>, the empty string, \<open>"y"\<close> and no
  variable at all.\<close>

theorem boolean_loader_witness:
  "loadEnvBool [js ''DPS_DEVELOPMENT_MODE'' \<mapsto> js ''Y''] (js '''') (js ''DPS_DEVELOPMENT_MODE'')
     = Inr (Some True)
   \<and> loadEnvBool [js ''DPS_DEVELOPMENT_MODE'' \<mapsto> js ''''] (js '''') (js ''DPS_DEVELOPMENT_MODE'')
     = Inr (Some False)
   \<and> loadEnvBool [js ''DPS_DEVELOPMENT_MODE'' \<mapsto> js ''y''] (js '''') (js ''DPS_DEVELOPMENT_MODE'')
     = Inr (Some False)
   \<and> loadEnvBool Map.empty (js '''') (js ''DPS_DEVELOPMENT_MODE'') = Inr None"
  using boolean_loader [of "[js ''DPS_DEVELOPMENT_MODE'' \<mapsto> js ''Y'']" "js ''''" "js ''DPS_DEVELOPMENT_MODE''"]
    boolean_loader [of "[js ''DPS_DEVELOPMENT_MODE'' \<mapsto> js '''']" "js ''''" "js ''DPS_DEVELOPMENT_MODE''"]
    boolean_loader [of "[js ''DPS_DEVELOPMENT_MODE'' \<mapsto> js ''y'']" "js ''''" "js ''DPS_DEVELOPMENT_MODE''"]
    boolean_loader [of "Map.empty" "js ''''" "js ''DPS_DEVELOPMENT_MODE''"]
  by (simp add: js_def)



text \<open>
  C3. For each of the fifteen variables and any prefix, construction with the variable set
  to the empty string and construction with the variable absent both return a store, and
  every getter gives the same result on the two stores: the fifteen setting getters, the
  composed URL and the secret bytes.
\<close>

theorem empty_value_like_absent:
  assumes "k \<in> set variable_names"
  shows "\<exists>a b. new_DpsConfig (env(default_prefix arg @ k \<mapsto> [])) arg = Inr a
    \<and> new_DpsConfig (env(default_prefix arg @ k := None)) arg = Inr b
    \<and> (\<forall>s. call_getter s a = call_getter s b)
    \<and> getAuthApiUrl a = getAuthApiUrl b
    \<and> getAuthApiSessionSecretBytes a = getAuthApiSessionSecretBytes b"
proof -
  obtain a where a: "new_DpsConfig (env(default_prefix arg @ k \<mapsto> [])) arg = Inr a"
    using new_DpsConfig_result by blast
  obtain b where b: "new_DpsConfig (env(default_prefix arg @ k := None)) arg = Inr b"
    using new_DpsConfig_result by blast
  from new_DpsConfig_empty_absent [OF a b] a b show ?thesis by blast
qed

text \<open>With the prefix \<open>VITE_\<close> and the variable of developmentMode: the stored fields
  differ (\<open>false\<close> against \<open>undefined\<close>), the getters do not.\<close>

theorem empty_value_like_absent_witness:
  "\<exists>a b. new_DpsConfig [js ''VITE_'' @ js ''DPS_DEVELOPMENT_MODE'' \<mapsto> []] (Some (js ''VITE_''))
       = Inr a
     \<and> new_DpsConfig Map.empty (Some (js ''VITE_'')) = Inr b
     \<and> call_getter DevelopmentMode a = call_getter DevelopmentMode b
     \<and> getAuthApiUrl a = getAuthApiUrl b
     \<and> developmentMode a = Some False \<and> developmentMode b = None"
proof -
  have "js ''DPS_DEVELOPMENT_MODE'' \<in> set variable_names"
    by (simp add: variable_names_def)
  from empty_value_like_absent [OF this, of Map.empty "Some (js ''VITE_'')"]
  obtain a b
    where a: "new_DpsConfig [js ''VITE_'' @ js ''DPS_DEVELOPMENT_MODE'' \<mapsto> []]
        (Some (js ''VITE_'')) = Inr a"
      and b: "new_DpsConfig Map.empty (Some (js ''VITE_'')) = Inr b"
      and g: "\<forall>s. call_getter s a = call_getter s b" "getAuthApiUrl a = getAuthApiUrl b"
    by (auto simp: default_prefix_def)
  have "developmentMode a = Some False"
    using a unfolding new_DpsConfig_result
    by (auto simp: loadEnvBool_result default_prefix_def js_def)
  moreover have "developmentMode b = None"
    using b unfolding new_DpsConfig_result by (auto simp: loadEnvBool_result)
  ultimately show ?thesis using a b g by blast
qed

text \<open>
  C4. When none of the fifteen variables is set under the prefix, construction returns a
  store whose getters give the tabulated defaults: domain \<open>dps.localhost\<close>, apiPath
  \<open>api\<close>, developmentMode false, authApiSubdomain \<open>auth\<close>, authApiProtocol \<open>https\<close>,
  authApiInsecureCookie false, the three file paths \<open>data/main-development.db\<close>,
  \<open>data/collection-development.db\<close> and \<open>data/session-development.db\<close>, the three pool
  sizes 1, sessionTtlSeconds 1209600, and \<open>undefined\<close> for authApiPort and
  authApiSessionSecret.
\<close>

theorem defaults_without_environment:
  assumes "\<forall>k \<in> set variable_names. env (default_prefix arg @ k) = None"
  shows "\<exists>this. new_DpsConfig env arg = Inr this
    \<and> getDomain this = js ''dps.localhost''
    \<and> getApiPath this = js ''api''
    \<and> getDevelopmentMode this = False
    \<and> getAuthApiSubdomain this = js ''auth''
    \<and> getAuthApiPort this = None
    \<and> getAuthApiProtocol this = js ''https''
    \<and> getAuthApiInsecureCookie this = False
    \<and> getAuthApiSqliteMainFilePath this = js ''data/main-development.db''
    \<and> getAuthApiSqliteMainPoolSize this = Num 1
    \<and> getAuthApiSqliteCollectionFilePath this = js ''data/collection-development.db''
    \<and> getAuthApiSqliteCollectionPoolSize this = Num 1
    \<and> getAuthApiSqliteSessionFilePath this = js ''data/session-development.db''
    \<and> getAuthApiSqliteSessionPoolSize this = Num 1
    \<and> getAuthApiSessionSecret this = None
    \<and> getAuthApiSessionTtlSeconds this = Num 1209600"
  using assms unfolding new_DpsConfig_result
  by (simp add: variable_names_def loader_results getter_defs)

text \<open>The empty environment with no prefix argument has none of the variables.\<close>

theorem defaults_without_environment_witness:
  "\<exists>this. new_DpsConfig Map.empty None = Inr this
    \<and> getDomain this = js ''dps.localhost''
    \<and> getApiPath this = js ''api''
    \<and> getDevelopmentMode this = False
    \<and> getAuthApiSubdomain this = js ''auth''
    \<and> getAuthApiPort this = None
    \<and> getAuthApiProtocol this = js ''https''
    \<and> getAuthApiInsecureCookie this = False
    \<and> getAuthApiSqliteMainFilePath this = js ''data/main-development.db''
    \<and> getAuthApiSqliteMainPoolSize this = Num 1
    \<and> getAuthApiSqliteCollectionFilePath this = js ''data/collection-development.db''
    \<and> getAuthApiSqliteCollectionPoolSize this = Num 1
    \<and> getAuthApiSqliteSessionFilePath this = js ''data/session-development.db''
    \<and> getAuthApiSqliteSessionPoolSize this = Num 1
    \<and> getAuthApiSessionSecret this = None
    \<and> getAuthApiSessionTtlSeconds this = Num 1209600"
proof -
  have "\<forall>k \<in> set variable_names. Map.empty (default_prefix None @ k) = (None :: jsstring option)"
    by simp
  then show ?thesis by (rule defaults_without_environment)
qed



text \<open>
  C6. As stated, the round trip is exact for every stored secret string. A secret that
  contains a surrogate on its own is a string the setter stores as it is; the encoder
  writes \<open>U+FFFD\<close> in place of the surrogate (the same bytes as for a secret that holds
  \<open>U+FFFD\<close>), so the bytes decode to another string. A secret that starts with \<open>U+FEFF\<close>
  is encoded faithfully, but the decoder of \<open>new TextDecoder()\<close> drops the mark.
\<close>

theorem secret_bytes_lossy_counterexample:
  "getAuthApiSessionSecretBytes
     \<lparr> domain = None, apiPath = None, developmentMode = None, authApiSubdomain = None,
       authApiPort = None, authApiProtocol = None, authApiInsecureCookie = None,
       authApiSqliteMainFilePath = None, authApiSqliteMainPoolSize = None,
       authApiSqliteCollectionFilePath = None, authApiSqliteCollectionPoolSize = None,
       authApiSqliteSessionFilePath = None, authApiSqliteSessionPoolSize = None,
       authApiSessionSecret = Some [0xD800], authApiSessionTtlSeconds = None \<rparr>
     = Some [0xEF, 0xBF, 0xBD]
   \<and> TextDecoder_decode [0xEF, 0xBF, 0xBD] = [0xFFFD]
   \<and> [0xFFFD] \<noteq> ([0xD800] :: jsstring)
   \<and> TextEncoder_encode [0xD800] = TextEncoder_encode [0xFFFD]
   \<and> getAuthApiSessionSecretBytes
     \<lparr> domain = None, apiPath = None, developmentMode = None, authApiSubdomain = None,
       authApiPort = None, authApiProtocol = None, authApiInsecureCookie = None,
       authApiSqliteMainFilePath = None, authApiSqliteMainPoolSize = None,
       authApiSqliteCollectionFilePath = None, authApiSqliteCollectionPoolSize = None,
       authApiSqliteSessionFilePath = None, authApiSqliteSessionPoolSize = None,
       authApiSessionSecret = Some [0xFEFF, 0x61], authApiSessionTtlSeconds = None \<rparr>
     = Some [0xEF, 0xBB, 0xBF, 0x61]
   \<and> TextDecoder_decode [0xEF, 0xBB, 0xBF, 0x61] = [0x61]
   \<and> [0x61] \<noteq> ([0xFEFF, 0x61] :: jsstring)"
  by (simp add: getAuthApiSessionSecretBytes_def TextDecoder_decode_def TextEncoder_encode_def
      is_lead_def is_trail_def utf8_bytes_def utf8_step_def utf8_first_def utf8_initial_def
      code_units_def)

text \<open>
  C6, amended. When the secret is absent the secret-bytes computation returns \<open>undefined\<close>.
  When a secret is stored it returns the UTF-8 encoding of the string, the same at every
  call, and for every secret without a surrogate on its own that does not start with
  \<open>U+FEFF\<close>, decoding the bytes gives back exactly the stored string.
\<close>

theorem secret_bytes_round_trip:
  "(getAuthApiSessionSecret this = None \<longrightarrow> getAuthApiSessionSecretBytes this = None)
   \<and> (getAuthApiSessionSecret this = Some s \<longrightarrow>
        getAuthApiSessionSecretBytes this = Some (TextEncoder_encode s)
        \<and> (well_formed s \<and> (s = [] \<or> hd s \<noteq> 0xFEFF) \<longrightarrow>
             (\<exists>bytes. getAuthApiSessionSecretBytes this = Some bytes
                \<and> TextDecoder_decode bytes = s)))
   \<and> getAuthApiSessionSecretBytes (setAuthApiSessionSecret (Some s) this)
       = Some (TextEncoder_encode s)
   \<and> getAuthApiSessionSecretBytes (setAuthApiSessionSecret None this) = None"
proof (intro conjI impI)
  assume "getAuthApiSessionSecret this = None"
  then show "getAuthApiSessionSecretBytes this = None"
    by (simp add: getAuthApiSessionSecret_def getAuthApiSessionSecretBytes_def)
next
  assume "getAuthApiSessionSecret this = Some s"
  then show "getAuthApiSessionSecretBytes this = Some (TextEncoder_encode s)"
    by (simp add: getAuthApiSessionSecret_def getAuthApiSessionSecretBytes_def)
next
  assume stored: "getAuthApiSessionSecret this = Some s"
    and shape: "well_formed s \<and> (s = [] \<or> hd s \<noteq> 0xFEFF)"
  from stored have "getAuthApiSessionSecretBytes this = Some (TextEncoder_encode s)"
    by (simp add: getAuthApiSessionSecret_def getAuthApiSessionSecretBytes_def)
  moreover from shape have "TextDecoder_decode (TextEncoder_encode s) = s"
    by (simp add: decode_encode)
  ultimately show "\<exists>bytes. getAuthApiSessionSecretBytes this = Some bytes
      \<and> TextDecoder_decode bytes = s"
    by simp
next
  show "getAuthApiSessionSecretBytes (setAuthApiSessionSecret (Some s) this)
       = Some (TextEncoder_encode s)"
    by (simp add: setAuthApiSessionSecret_def getAuthApiSessionSecretBytes_def)
next
  show "getAuthApiSessionSecretBytes (setAuthApiSessionSecret None this) = None"
    by (simp add: setAuthApiSessionSecret_def getAuthApiSessionSecretBytes_def)
qed

text \<open>The secret \<open>my-secret-key\<close> of the test suite, read back through its bytes, and a
  store without a secret.\<close>

theorem secret_bytes_round_trip_witness:
  "(\<exists>bytes. getAuthApiSessionSecretBytes
       \<lparr> domain = None, apiPath = None, developmentMode = None, authApiSubdomain = None,
         authApiPort = None, authApiProtocol = None, authApiInsecureCookie = None,
         authApiSqliteMainFilePath = None, authApiSqliteMainPoolSize = None,
         authApiSqliteCollectionFilePath = None, authApiSqliteCollectionPoolSize = None,
         authApiSqliteSessionFilePath = None, authApiSqliteSessionPoolSize = None,
         authApiSessionSecret = Some (js ''my-secret-key''),
         authApiSessionTtlSeconds = None \<rparr> = Some bytes
     \<and> bytes = [0x6D, 0x79, 0x2D, 0x73, 0x65, 0x63, 0x72, 0x65, 0x74, 0x2D, 0x6B, 0x65, 0x79]
     \<and> TextDecoder_decode bytes = js ''my-secret-key'')
   \<and> getAuthApiSessionSecretBytes
       \<lparr> domain = None, apiPath = None, developmentMode = None, authApiSubdomain = None,
         authApiPort = None, authApiProtocol = None, authApiInsecureCookie = None,
         authApiSqliteMainFilePath = None, authApiSqliteMainPoolSize = None,
         authApiSqliteCollectionFilePath = None, authApiSqliteCollectionPoolSize = None,
         authApiSqliteSessionFilePath = None, authApiSqliteSessionPoolSize = None,
         authApiSessionSecret = None, authApiSessionTtlSeconds = None \<rparr> = None"
proof
  let ?c = "\<lparr> domain = None, apiPath = None, developmentMode = None, authApiSubdomain = None,
         authApiPort = None, authApiProtocol = None, authApiInsecureCookie = None,
         authApiSqliteMainFilePath = None, authApiSqliteMainPoolSize = None,
         authApiSqliteCollectionFilePath = None, authApiSqliteCollectionPoolSize = None,
         authApiSqliteSessionFilePath = None, authApiSqliteSessionPoolSize = None,
         authApiSessionSecret = Some (js ''my-secret-key''),
         authApiSessionTtlSeconds = None \<rparr>"
  have stored: "getAuthApiSessionSecret ?c = Some (js ''my-secret-key'')"
    by (simp add: getAuthApiSessionSecret_def)
  have shape: "well_formed (js ''my-secret-key'')
      \<and> (js ''my-secret-key'' = [] \<or> hd (js ''my-secret-key'') \<noteq> 0xFEFF)"
    by (simp add: well_formed_def js_def is_lead_def is_trail_def)
  have enc: "TextEncoder_encode (js ''my-secret-key'') =
      [0x6D, 0x79, 0x2D, 0x73, 0x65, 0x63, 0x72, 0x65, 0x74, 0x2D, 0x6B, 0x65, 0x79]"
    by (simp add: TextEncoder_encode_def js_def is_lead_def is_trail_def utf8_bytes_def)
  from secret_bytes_round_trip [of ?c "js ''my-secret-key''"] stored shape
  obtain bytes where "getAuthApiSessionSecretBytes ?c = Some bytes"
    "getAuthApiSessionSecretBytes ?c = Some (TextEncoder_encode (js ''my-secret-key''))"
    "TextDecoder_decode bytes = js ''my-secret-key''"
    by blast
  with enc show "\<exists>bytes. getAuthApiSessionSecretBytes ?c = Some bytes
     \<and> bytes = [0x6D, 0x79, 0x2D, 0x73, 0x65, 0x63, 0x72, 0x65, 0x74, 0x2D, 0x6B, 0x65, 0x79]
     \<and> TextDecoder_decode bytes = js ''my-secret-key''"
    by simp
next
  let ?d = "\<lparr> domain = None, apiPath = None, developmentMode = None, authApiSubdomain = None,
         authApiPort = None, authApiProtocol = None, authApiInsecureCookie = None,
         authApiSqliteMainFilePath = None, authApiSqliteMainPoolSize = None,
         authApiSqliteCollectionFilePath = None, authApiSqliteCollectionPoolSize = None,
         authApiSqliteSessionFilePath = None, authApiSqliteSessionPoolSize = None,
         authApiSessionSecret = None, authApiSessionTtlSeconds = None \<rparr>"
  have "getAuthApiSessionSecret ?d = None"
    by (simp add: getAuthApiSessionSecret_def)
  with secret_bytes_round_trip [of ?d] show "getAuthApiSessionSecretBytes ?d = None"
    by blast
qed

text \<open>
  C7. For every store, every setting and every value of the setting's type, the setter
  accepts the value without any check, the setting's getter then returns exactly that
  value, whatever was stored before, and the getter of every other setting returns what
  it returned before the call.
\<close>

theorem setter_overwrites:
  assumes "has_type (type_of_setting s) v"
  shows "\<exists>this'. call_setter s v this = Some this' \<and> call_getter s this' = v
    \<and> (\<forall>s'. s' \<noteq> s \<longrightarrow> call_getter s' this' = call_getter s' this)"
  using call_setter_typed [OF assms] call_setter_frame by blast

text \<open>A store with a domain and a port: setting the port to 3000 is read back, the domain
  and a pool size are as before.\<close>

theorem setter_overwrites_witness:
  "\<exists>this'. call_setter AuthApiPort (VNumber (Num 3000))
       \<lparr> domain = Some (js ''example.com''), apiPath = None,
         developmentMode = None, authApiSubdomain = None, authApiPort = Some (Num 8080),
         authApiProtocol = None, authApiInsecureCookie = None,
         authApiSqliteMainFilePath = None, authApiSqliteMainPoolSize = None,
         authApiSqliteCollectionFilePath = None, authApiSqliteCollectionPoolSize = None,
         authApiSqliteSessionFilePath = None, authApiSqliteSessionPoolSize = None,
         authApiSessionSecret = None, authApiSessionTtlSeconds = None \<rparr> = Some this'
     \<and> call_getter AuthApiPort this' = VNumber (Num 3000)
     \<and> call_getter Domain this' = VString (js ''example.com'')
     \<and> call_getter AuthApiSqliteMainPoolSize this' = VNumber (Num 1)"
proof -
  let ?c = "\<lparr> domain = Some (js ''example.com''), apiPath = None,
         developmentMode = None, authApiSubdomain = None, authApiPort = Some (Num 8080),
         authApiProtocol = None, authApiInsecureCookie = None,
         authApiSqliteMainFilePath = None, authApiSqliteMainPoolSize = None,
         authApiSqliteCollectionFilePath = None, authApiSqliteCollectionPoolSize = None,
         authApiSqliteSessionFilePath = None, authApiSqliteSessionPoolSize = None,
         authApiSessionSecret = None, authApiSessionTtlSeconds = None \<rparr>"
  have "has_type (type_of_setting AuthApiPort) (VNumber (Num 3000))" by simp
  from setter_overwrites [OF this, of ?c]
  obtain this' where s: "call_setter AuthApiPort (VNumber (Num 3000)) ?c = Some this'"
    and g: "call_getter AuthApiPort this' = VNumber (Num 3000)"
    and f: "\<forall>s'. s' \<noteq> AuthApiPort \<longrightarrow> call_getter s' this' = call_getter s' ?c"
    by blast
  have "Domain \<noteq> AuthApiPort" and "AuthApiSqliteMainPoolSize \<noteq> AuthApiPort"
    by simp_all
  with f have "call_getter Domain this' = call_getter Domain ?c"
    and "call_getter AuthApiSqliteMainPoolSize this' = call_getter AuthApiSqliteMainPoolSize ?c"
    by blast+
  then have "call_getter Domain this' = VString (js ''example.com'')"
    and "call_getter AuthApiSqliteMainPoolSize this' = VNumber (Num 1)"
    by (simp_all add: getter_defs)
  with s g show ?thesis by blast
qed




text \<open>
  C9. For each of the seven string settings with a default, the setter called with the
  empty string stores the empty string and the getter then returns \<open>""\<close>, which is none
  of the defaults; an empty value in the environment, on the contrary, is loaded as
  \<open>undefined\<close>.
\<close>

theorem empty_string_by_setter:
  "domain (setDomain [] this) = Some [] \<and> getDomain (setDomain [] this) = []
   \<and> apiPath (setApiPath [] this) = Some [] \<and> getApiPath (setApiPath [] this) = []
   \<and> authApiSubdomain (setAuthApiSubdomain [] this) = Some []
   \<and> getAuthApiSubdomain (setAuthApiSubdomain [] this) = []
   \<and> authApiProtocol (setAuthApiProtocol [] this) = Some []
   \<and> getAuthApiProtocol (setAuthApiProtocol [] this) = []
   \<and> authApiSqliteMainFilePath (setAuthApiSqliteMainFilePath [] this) = Some []
   \<and> getAuthApiSqliteMainFilePath (setAuthApiSqliteMainFilePath [] this) = []
   \<and> authApiSqliteCollectionFilePath (setAuthApiSqliteCollectionFilePath [] this) = Some []
   \<and> getAuthApiSqliteCollectionFilePath (setAuthApiSqliteCollectionFilePath [] this) = []
   \<and> authApiSqliteSessionFilePath (setAuthApiSqliteSessionFilePath [] this) = Some []
   \<and> getAuthApiSqliteSessionFilePath (setAuthApiSqliteSessionFilePath [] this) = []
   \<and> [] \<notin> {js ''dps.localhost'', js ''api'', js ''auth'', js ''https'',
        js ''data/main-development.db'', js ''data/collection-development.db'',
        js ''data/session-development.db''}
   \<and> (env (prefix @ key) = Some [] \<longrightarrow> loadEnvString env prefix key = Inr None)"
  by (simp add: setter_defs getter_defs loadEnvString_result js_def)

text \<open>A store whose domain was set before, and an environment with an empty
  \<open>DPS_DOMAIN\<close>.\<close>

theorem empty_string_by_setter_witness:
  "getDomain (setDomain [] \<lparr> domain = Some (js ''example.com''), apiPath = None,
       developmentMode = None, authApiSubdomain = None, authApiPort = None,
       authApiProtocol = None, authApiInsecureCookie = None,
       authApiSqliteMainFilePath = None, authApiSqliteMainPoolSize = None,
       authApiSqliteCollectionFilePath = None, authApiSqliteCollectionPoolSize = None,
       authApiSqliteSessionFilePath = None, authApiSqliteSessionPoolSize = None,
       authApiSessionSecret = None, authApiSessionTtlSeconds = None \<rparr>) = []
   \<and> loadEnvString [js ''DPS_DOMAIN'' \<mapsto> []] [] (js ''DPS_DOMAIN'') = Inr None"
  using empty_string_by_setter [of _ "[js ''DPS_DOMAIN'' \<mapsto> []]" "[]" "js ''DPS_DOMAIN''"]
  by simp

text \<open>
  C10. As stated, the string and boolean setters accept only values of their type. The
  setter of the session secret, a string setting, takes \<open>string | undefined\<close>: called with
  \<open>undefined\<close> on a store that holds a secret, it is accepted and clears the secret.
\<close>

theorem string_setter_accepts_undefined_counterexample:
  "type_of_setting AuthApiSessionSecret = TString
   \<and> \<not> has_type TString VUndefined
   \<and> call_setter AuthApiSessionSecret VUndefined
       \<lparr> domain = None, apiPath = None, developmentMode = None, authApiSubdomain = None,
         authApiPort = None, authApiProtocol = None, authApiInsecureCookie = None,
         authApiSqliteMainFilePath = None, authApiSqliteMainPoolSize = None,
         authApiSqliteCollectionFilePath = None, authApiSqliteCollectionPoolSize = None,
         authApiSqliteSessionFilePath = None, authApiSqliteSessionPoolSize = None,
         authApiSessionSecret = Some (js ''s3cr3t''), authApiSessionTtlSeconds = None \<rparr>
     = Some \<lparr> domain = None, apiPath = None, developmentMode = None, authApiSubdomain = None,
         authApiPort = None, authApiProtocol = None, authApiInsecureCookie = None,
         authApiSqliteMainFilePath = None, authApiSqliteMainPoolSize = None,
         authApiSqliteCollectionFilePath = None, authApiSqliteCollectionPoolSize = None,
         authApiSqliteSessionFilePath = None, authApiSqliteSessionPoolSize = None,
         authApiSessionSecret = None, authApiSessionTtlSeconds = None \<rparr>"
  by (simp add: argument_defs setAuthApiSessionSecret_def)

text \<open>
  C10, amended. The setter of every integer setting accepts \<open>undefined\<close>, and the getter
  then returns the default again (1 for the pool sizes, 1209600 for sessionTtlSeconds) or
  \<open>undefined\<close> for the port. The boolean setters and the setters of the seven string
  settings that have a default accept only values of their type. The setter of the session
  secret accepts \<open>undefined\<close> as well, and its getter then returns \<open>undefined\<close>.
\<close>

theorem numeric_setters_revert:
  "getAuthApiPort (setAuthApiPort None this) = None
   \<and> getAuthApiSqliteMainPoolSize (setAuthApiSqliteMainPoolSize None this) = Num 1
   \<and> getAuthApiSqliteCollectionPoolSize (setAuthApiSqliteCollectionPoolSize None this) = Num 1
   \<and> getAuthApiSqliteSessionPoolSize (setAuthApiSqliteSessionPoolSize None this) = Num 1
   \<and> getAuthApiSessionTtlSeconds (setAuthApiSessionTtlSeconds None this) = Num 1209600
   \<and> (type_of_setting s = TNumber \<longrightarrow>
        (\<exists>this'. call_setter s VUndefined this = Some this'
           \<and> call_getter s this' =
               (if s = AuthApiPort then VUndefined
                else if s = AuthApiSessionTtlSeconds then VNumber (Num 1209600)
                else VNumber (Num 1))))
   \<and> (type_of_setting s \<noteq> TNumber \<and> s \<noteq> AuthApiSessionSecret
        \<and> \<not> has_type (type_of_setting s) v \<longrightarrow> call_setter s v this = None)
   \<and> call_setter AuthApiSessionSecret VUndefined this = Some (setAuthApiSessionSecret None this)
   \<and> getAuthApiSessionSecret (setAuthApiSessionSecret None this) = None"
proof (intro conjI impI)
  assume "type_of_setting s = TNumber"
  then show "\<exists>this'. call_setter s VUndefined this = Some this'
           \<and> call_getter s this' =
               (if s = AuthApiPort then VUndefined
                else if s = AuthApiSessionTtlSeconds then VNumber (Num 1209600)
                else VNumber (Num 1))"
    by (cases s) (simp_all add: argument_defs setter_defs getter_defs)
next
  assume "type_of_setting s \<noteq> TNumber \<and> s \<noteq> AuthApiSessionSecret
        \<and> \<not> has_type (type_of_setting s) v"
  then show "call_setter s v this = None"
    by (cases s; cases v) (simp_all add: argument_defs)
qed (simp_all add: argument_defs setter_defs getter_defs)

text \<open>A store with a main pool size of 8: \<open>undefined\<close> brings back 1, and the domain setter
  does not take \<open>undefined\<close>.\<close>

theorem numeric_setters_revert_witness:
  "(\<exists>this'. call_setter AuthApiSqliteMainPoolSize VUndefined
       \<lparr> domain = None, apiPath = None, developmentMode = None, authApiSubdomain = None,
         authApiPort = None, authApiProtocol = None, authApiInsecureCookie = None,
         authApiSqliteMainFilePath = None, authApiSqliteMainPoolSize = Some (Num 8),
         authApiSqliteCollectionFilePath = None, authApiSqliteCollectionPoolSize = None,
         authApiSqliteSessionFilePath = None, authApiSqliteSessionPoolSize = None,
         authApiSessionSecret = None, authApiSessionTtlSeconds = None \<rparr> = Some this'
      \<and> call_getter AuthApiSqliteMainPoolSize this' = VNumber (Num 1))
   \<and> call_setter Domain VUndefined
       \<lparr> domain = None, apiPath = None, developmentMode = None, authApiSubdomain = None,
         authApiPort = None, authApiProtocol = None, authApiInsecureCookie = None,
         authApiSqliteMainFilePath = None, authApiSqliteMainPoolSize = Some (Num 8),
         authApiSqliteCollectionFilePath = None, authApiSqliteCollectionPoolSize = None,
         authApiSqliteSessionFilePath = None, authApiSqliteSessionPoolSize = None,
         authApiSessionSecret = None, authApiSessionTtlSeconds = None \<rparr> = None"
proof -
  let ?c = "\<lparr> domain = None, apiPath = None, developmentMode = None, authApiSubdomain = None,
         authApiPort = None, authApiProtocol = None, authApiInsecureCookie = None,
         authApiSqliteMainFilePath = None, authApiSqliteMainPoolSize = Some (Num 8),
         authApiSqliteCollectionFilePath = None, authApiSqliteCollectionPoolSize = None,
         authApiSqliteSessionFilePath = None, authApiSqliteSessionPoolSize = None,
         authApiSessionSecret = None, authApiSessionTtlSeconds = None \<rparr>"
  have 1: "\<exists>this'. call_setter AuthApiSqliteMainPoolSize VUndefined ?c = Some this'
      \<and> call_getter AuthApiSqliteMainPoolSize this' = VNumber (Num 1)"
    using numeric_setters_revert [of ?c AuthApiSqliteMainPoolSize] by simp
  have 2: "call_setter Domain VUndefined ?c = None"
    using numeric_setters_revert [of ?c Domain VUndefined] by simp
  from 1 2 show ?thesis by blast
qed

end
